theory Spec2Isabelle
  imports Complex_Main "HOL-Library.Monad_Syntax"
begin

section \<open>The geometric solver of LineIntersectionLogic\<close>

text \<open>
  Points and direction vectors are the three-element float lists that the widget passes
  around (\<^verbatim>\<open>[s.value for s in self.p1Sliders]\<close>) and the shape-(3,) arrays that
  \<^verbatim>\<open>np.array\<close> makes of them. The solver is embedded twice. First with exact
  arithmetic: coordinates are real numbers, as the data model of the specification has
  them, and \<^verbatim>\<open>np.linalg.norm\<close>, \<^verbatim>\<open>np.cross\<close>, \<^verbatim>\<open>np.dot\<close> and
  \<^verbatim>\<open>np.linalg.det\<close> are their mathematical definitions, without the rounding,
  underflow and overflow of double precision. Then with numpy's operations as a
  parameter, so that what is proved there holds for double precision as for any other
  arithmetic.
\<close>

type_synonym vec3 = "real \<times> real \<times> real"

text \<open>
  What can go wrong in the arithmetic. A zero divisor makes numpy produce inf or nan
  (with a RuntimeWarning, or a FloatingPointError under \<^verbatim>\<open>np.seterr\<close>): in both
  cases no real number comes out, which is the \<open>ZeroDivisor\<close> branch.
  \<open>ArityError\<close> is the TypeError of a call that unpacks a list of the wrong length.
\<close>

datatype fault = ZeroDivisor | ArityError

definition np_div :: "real \<Rightarrow> real \<Rightarrow> fault + real" where
  "np_div a b = (if b = 0 then Inl ZeroDivisor else Inr (a / b))"

fun norm3 :: "vec3 \<Rightarrow> real" where
  "norm3 (x, y, z) = sqrt (x * x + y * y + z * z)"

fun dot3 :: "vec3 \<Rightarrow> vec3 \<Rightarrow> real" where
  "dot3 (a1, a2, a3) (b1, b2, b3) = a1 * b1 + a2 * b2 + a3 * b3"

fun cross3 :: "vec3 \<Rightarrow> vec3 \<Rightarrow> vec3" where
  "cross3 (a1, a2, a3) (b1, b2, b3) =
     (a2 * b3 - a3 * b2, a3 * b1 - a1 * b3, a1 * b2 - a2 * b1)"

text \<open>\<^verbatim>\<open>np.linalg.det\<close> of the 3x3 matrix with the given rows.\<close>

fun det3 :: "vec3 \<Rightarrow> vec3 \<Rightarrow> vec3 \<Rightarrow> real" where
  "det3 (a1, a2, a3) (b1, b2, b3) (c1, c2, c3) =
     a1 * (b2 * c3 - b3 * c2) - a2 * (b1 * c3 - b3 * c1) + a3 * (b1 * c2 - b2 * c1)"

fun vadd :: "vec3 \<Rightarrow> vec3 \<Rightarrow> vec3" where
  "vadd (a1, a2, a3) (b1, b2, b3) = (a1 + b1, a2 + b2, a3 + b3)"

fun vsub :: "vec3 \<Rightarrow> vec3 \<Rightarrow> vec3" where
  "vsub (a1, a2, a3) (b1, b2, b3) = (a1 - b1, a2 - b2, a3 - b3)"

fun vscale :: "real \<Rightarrow> vec3 \<Rightarrow> vec3" where
  "vscale t (a1, a2, a3) = (t * a1, t * a2, t * a3)"

fun vdiv :: "vec3 \<Rightarrow> real \<Rightarrow> vec3" where
  "vdiv (a1, a2, a3) c = (a1 / c, a2 / c, a3 / c)"

fun tolist :: "vec3 \<Rightarrow> real list" where
  "tolist (a1, a2, a3) = [a1, a2, a3]"

text \<open>
  \<^verbatim>\<open>computeClosestPointOfIntersection(p1, d1, p2, d2)\<close>: the early return for a
  direction of zero norm, then the branch on \<^verbatim>\<open>denom == 0\<close>, with the divisions
  checked.
\<close>

definition computeClosestPointOfIntersection ::
    "vec3 \<Rightarrow> vec3 \<Rightarrow> vec3 \<Rightarrow> vec3 \<Rightarrow> fault + real list" where
  "computeClosestPointOfIntersection p1 d1 p2 d2 =
     (if norm3 d1 = 0 \<or> norm3 d2 = 0 then Inr [0, 0, 0]
      else
        let cross = cross3 d1 d2;
            denom = (norm3 cross) ^ 2
        in if denom = 0 then
             (case np_div (dot3 (vsub p2 p1) d1) (dot3 d1 d1) of
                Inl e \<Rightarrow> Inl e
              | Inr t \<Rightarrow> Inr (tolist (vdiv (vadd (vadd p1 (vscale t d1)) p2) 2)))
           else
             (case np_div (det3 (vsub p2 p1) d2 cross) denom of
                Inl e \<Rightarrow> Inl e
              | Inr t1 \<Rightarrow>
                  (case np_div (det3 (vsub p2 p1) d1 cross) denom of
                     Inl e \<Rightarrow> Inl e
                   | Inr t2 \<Rightarrow>
                       let c1 = vadd p1 (vscale t1 d1);
                           c2 = vadd p2 (vscale t2 d2)
                       in Inr (tolist (vdiv (vadd c1 c2) 2)))))"










section \<open>The widget: two views of the points and the guard flag\<close>

text \<open>
  The state that \<^verbatim>\<open>LineIntersectionWidget\<close> reads and writes: its flag
  \<^verbatim>\<open>_creating\<close>, the values of the four groups of three sliders, the positions of
  the control points of the markups node (by index), the fields of the parameter node and
  the numbers shown by the output label.
\<close>

record widget =
  creating :: bool
  p1Sliders :: vec3
  p2Sliders :: vec3
  d1Sliders :: vec3
  d2Sliders :: vec3
  controlPoints :: "nat \<Rightarrow> vec3"
  param_d1 :: vec3
  param_d2 :: vec3
  autoUpdate :: bool
  intersectionLabel :: "real list"

text \<open>
  How a call ends: it returns, or an exception leaves it. A handler is a callback
  registered with the scene or with a slider; it runs on a budget of nested
  notifications, and \<open>None\<close> says that the budget was used up.
\<close>

datatype status = Returned | Raised fault

type_synonym handler = "widget \<Rightarrow> (status \<times> widget) option"

type_synonym solver = "vec3 \<Rightarrow> vec3 \<Rightarrow> vec3 \<Rightarrow> vec3 \<Rightarrow> fault + real list"

text \<open>
  A notification runs the registered callback synchronously. An exception that escapes
  a callback is reported by the event system and does not reach the code that made the
  write; the state stays as the callback left it.
\<close>

definition notify :: "handler \<Rightarrow> widget \<Rightarrow> widget option" where
  "notify h w = map_option snd (h w)"

text \<open>
  \<^verbatim>\<open>pointNode.SetNthControlPointPosition(n, x, y, z)\<close>: the position is stored and the
  observers of \<^verbatim>\<open>PointModifiedEvent\<close> are called.
\<close>

definition setNthControlPointPosition :: "handler \<Rightarrow> nat \<Rightarrow> vec3 \<Rightarrow> widget \<Rightarrow> widget option" where
  "setNthControlPointPosition obs n v w =
     notify obs (w\<lparr>controlPoints := (controlPoints w)(n := v)\<rparr>)"

text \<open>
  The position sliders are made by \<^verbatim>\<open>makeSlider(0.0, "P")\<close> with
  \<^verbatim>\<open>minimum = -100.0\<close> and \<^verbatim>\<open>maximum = 100.0\<close>. Assigning \<^verbatim>\<open>sl.value = v\<close> keeps
  the value inside that range and emits \<^verbatim>\<open>valueChanged\<close> when the stored value changes.
\<close>

definition slider_clamp :: "real \<Rightarrow> real \<Rightarrow> real \<Rightarrow> real" where
  "slider_clamp lo hi v = max lo (min hi v)"

fun vnth :: "vec3 \<Rightarrow> nat \<Rightarrow> real" where
  "vnth (a1, a2, a3) i = (if i = 0 then a1 else if i = 1 then a2 else a3)"

fun vupd :: "vec3 \<Rightarrow> nat \<Rightarrow> real \<Rightarrow> vec3" where
  "vupd (a1, a2, a3) i v =
     (if i = 0 then (v, a2, a3) else if i = 1 then (a1, v, a3) else (a1, a2, v))"

definition assignSlider ::
    "handler \<Rightarrow> (widget \<Rightarrow> vec3) \<Rightarrow> (vec3 \<Rightarrow> widget \<Rightarrow> widget) \<Rightarrow> nat \<Rightarrow> real \<Rightarrow> widget
      \<Rightarrow> widget option" where
  "assignSlider slot get put i v w =
     (let new = slider_clamp (- 100) 100 v
      in if vnth (get w) i = new then Some w
         else notify slot (put (vupd (get w) i new) w))"

text \<open>\<^verbatim>\<open>for sl, v in zip(sliders, p): sl.value = v\<close> over a group of three sliders.\<close>

definition assignSliders ::
    "handler \<Rightarrow> (widget \<Rightarrow> vec3) \<Rightarrow> (vec3 \<Rightarrow> widget \<Rightarrow> widget) \<Rightarrow> vec3 \<Rightarrow> widget
      \<Rightarrow> widget option" where
  "assignSliders slot get put p w =
     do {
       w1 \<leftarrow> assignSlider slot get put 0 (vnth p 0) w;
       w2 \<leftarrow> assignSlider slot get put 1 (vnth p 1) w1;
       assignSlider slot get put 2 (vnth p 2) w2
     }"

text \<open>
  \<^verbatim>\<open>round(x, 2)\<close> on the real number that the float denotes: the nearest multiple of
  one hundredth, a tie going to the even one. (A decimal such as 0.175 is not itself a
  double; Python rounds the double next to it.)
\<close>

definition py_round2 :: "real \<Rightarrow> real" where
  "py_round2 x =
     (let y = x * 100; f = \<lfloor>y\<rfloor>
      in (if y - of_int f < 1 / 2 then of_int f
          else if 1 / 2 < y - of_int f then of_int f + 1
          else if even f then of_int f else of_int f + 1) / 100)"

text \<open>
  \<^verbatim>\<open>updateP3Position(p1, p2)\<close>. The solver is \<^verbatim>\<open>self.logic\<close>, a parameter here;
  an exception of the solver, or of unpacking \<^verbatim>\<open>*p3\<close> when it has not three
  elements, leaves the method at once. The write of control point 2 sits between
  \<^verbatim>\<open>StartModify\<close> and \<^verbatim>\<open>EndModify\<close>, which deliver its notification once.
\<close>

definition updateP3Position ::
    "solver \<Rightarrow> handler \<Rightarrow> vec3 \<Rightarrow> vec3 \<Rightarrow> widget \<Rightarrow> (status \<times> widget) option" where
  "updateP3Position lg obs p1 p2 w =
     (case lg p1 (param_d1 w) p2 (param_d2 w) of
        Inl e \<Rightarrow> Some (Raised e, w)
      | Inr p3 \<Rightarrow>
          (case p3 of
             [x, y, z] \<Rightarrow>
               do {
                 w1 \<leftarrow> setNthControlPointPosition obs 2 (x, y, z) w;
                 Some (Returned, w1\<lparr>intersectionLabel := map py_round2 p3\<rparr>)
               }
           | _ \<Rightarrow> Some (Raised ArityError, w)))"

text \<open>
  \<^verbatim>\<open>updateFromSliders()\<close>: the flag is set, the slider values go to control points 0
  and 1 and to the parameter node, P3 is recomputed, the flag is cleared by the last
  statement.
\<close>

definition updateFromSliders :: "solver \<Rightarrow> handler \<Rightarrow> widget \<Rightarrow> (status \<times> widget) option" where
  "updateFromSliders lg obs w =
     (let w0 = w\<lparr>creating := True\<rparr>;
          p1 = p1Sliders w0;
          p2 = p2Sliders w0
      in do {
           w1 \<leftarrow> setNthControlPointPosition obs 0 p1 w0;
           w2 \<leftarrow> setNthControlPointPosition obs 1 p2 w1;
           let w3 = w2\<lparr>param_d1 := d1Sliders w2\<rparr>;
           let w4 = w3\<lparr>param_d2 := d2Sliders w3\<rparr>;
           r \<leftarrow> updateP3Position lg obs p1 p2 w4;
           (case r of
              (Returned, w5) \<Rightarrow> Some (Returned, w5\<lparr>creating := False\<rparr>)
            | (Raised e, w5) \<Rightarrow> Some (Raised e, w5))
         })"

text \<open>
  \<^verbatim>\<open>updateFromMarkups()\<close>: the flag is set, control points 0 and 1 are read and
  assigned to the position sliders, P3 is recomputed, the flag is cleared by the last
  statement.
\<close>

definition updateFromMarkups ::
    "solver \<Rightarrow> handler \<Rightarrow> handler \<Rightarrow> widget \<Rightarrow> (status \<times> widget) option" where
  "updateFromMarkups lg slot obs w =
     (let w0 = w\<lparr>creating := True\<rparr>;
          p1 = controlPoints w0 0;
          p2 = controlPoints w0 1
      in do {
           w1 \<leftarrow> assignSliders slot p1Sliders (\<lambda>v s. s\<lparr>p1Sliders := v\<rparr>) p1 w0;
           w2 \<leftarrow> assignSliders slot p2Sliders (\<lambda>v s. s\<lparr>p2Sliders := v\<rparr>) p2 w1;
           r \<leftarrow> updateP3Position lg obs p1 p2 w2;
           (case r of
              (Returned, w3) \<Rightarrow> Some (Returned, w3\<lparr>creating := False\<rparr>)
            | (Raised e, w3) \<Rightarrow> Some (Raised e, w3))
         })"

text \<open>
  The two callbacks, as \<^verbatim>\<open>setup()\<close> wires them: \<^verbatim>\<open>onSliderModified\<close> to every
  slider's \<^verbatim>\<open>valueChanged\<close>, \<^verbatim>\<open>onMarkupModified\<close> to the node's
  \<^verbatim>\<open>PointModifiedEvent\<close>. The first argument after the solver is the budget of nested
  notifications.
\<close>

fun onSliderModified :: "solver \<Rightarrow> nat \<Rightarrow> handler"
  and onMarkupModified :: "solver \<Rightarrow> nat \<Rightarrow> handler" where
  "onSliderModified lg 0 w = None"
| "onSliderModified lg (Suc n) w =
     (if creating w then Some (Returned, w)
      else updateFromSliders lg (\<lambda>s. onMarkupModified lg n s) w)"
| "onMarkupModified lg 0 w = None"
| "onMarkupModified lg (Suc n) w =
     (if creating w then Some (Returned, w)
      else updateFromMarkups lg (\<lambda>s. onSliderModified lg n s) (\<lambda>s. onMarkupModified lg n s) w)"

text \<open>A callback that does nothing, to compare a run with.\<close>

definition ignored :: handler where
  "ignored w = Some (Returned, w)"

text \<open>
  The state that \<^verbatim>\<open>setup()\<close> leaves when it creates the markups node: three control
  points at the origin, position sliders at zero, direction sliders at the defaults of the
  parameter node, P3 and the label from the initial \<^verbatim>\<open>updateFromSliders()\<close>, the flag
  cleared.
\<close>

definition after_setup :: widget where
  "after_setup =
     \<lparr>creating = False,
      p1Sliders = (0, 0, 0), p2Sliders = (0, 0, 0),
      d1Sliders = (1, 0, 0), d2Sliders = (0, 1, 0),
      controlPoints = (\<lambda>i. (0, 0, 0)),
      param_d1 = (1, 0, 0), param_d2 = (0, 1, 0),
      autoUpdate = False,
      intersectionLabel = [0, 0, 0]\<rparr>"

text \<open>A solver whose call raises, to follow an exception through a propagation.\<close>

definition raising_solver :: solver where
  "raising_solver p1 d1 p2 d2 = Inl ZeroDivisor"

text \<open>The range of the position sliders, and what three of them hold after being assigned a point.\<close>

fun in_slider_range :: "vec3 \<Rightarrow> bool" where
  "in_slider_range (a1, a2, a3) =
     (- 100 \<le> a1 \<and> a1 \<le> 100 \<and> - 100 \<le> a2 \<and> a2 \<le> 100 \<and> - 100 \<le> a3 \<and> a3 \<le> 100)"

fun vclamp :: "vec3 \<Rightarrow> vec3" where
  "vclamp (a1, a2, a3) =
     (slider_clamp (- 100) 100 a1, slider_clamp (- 100) 100 a2, slider_clamp (- 100) 100 a3)"

text \<open>A callback is quiet when it leaves every state with the flag set as it is.\<close>

definition quiet :: "handler \<Rightarrow> bool" where
  "quiet h \<longleftrightarrow> (\<forall>w. creating w \<longrightarrow> h w = Some (Returned, w))"

section \<open>Facts about the vector operations\<close>

lemma norm3_zero_iff: "norm3 v = 0 \<longleftrightarrow> v = (0, 0, 0)"
proof (cases v)
  case (fields x y z)
  have "x * x + y * y + z * z = 0 \<longleftrightarrow> x = 0 \<and> y = 0 \<and> z = 0"
    by (smt (verit) mult_eq_0_iff zero_le_square add_nonneg_eq_0_iff add_nonneg_nonneg)
  then show ?thesis using fields by simp
qed

lemma norm3_sq: "(norm3 v) ^ 2 = dot3 v v"
proof (cases v)
  case (fields x y z)
  have "0 \<le> x * x + y * y + z * z" by (simp add: add_nonneg_nonneg)
  then show ?thesis using fields by simp
qed

lemma dot3_self_zero_iff: "dot3 v v = 0 \<longleftrightarrow> v = (0, 0, 0)"
proof -
  have "dot3 v v = 0 \<longleftrightarrow> (norm3 v) ^ 2 = 0" by (simp only: norm3_sq)
  also have "\<dots> \<longleftrightarrow> norm3 v = 0" by simp
  finally show ?thesis by (simp only: norm3_zero_iff)
qed

lemma solver_unfold:
  "computeClosestPointOfIntersection p1 d1 p2 d2 =
     (if d1 = (0, 0, 0) \<or> d2 = (0, 0, 0) then Inr [0, 0, 0]
      else if dot3 (cross3 d1 d2) (cross3 d1 d2) = 0 then
        Inr (tolist (vdiv (vadd (vadd p1 (vscale (dot3 (vsub p2 p1) d1 / dot3 d1 d1) d1)) p2) 2))
      else
        Inr (tolist (vdiv (vadd
          (vadd p1 (vscale (det3 (vsub p2 p1) d2 (cross3 d1 d2)
                             / dot3 (cross3 d1 d2) (cross3 d1 d2)) d1))
          (vadd p2 (vscale (det3 (vsub p2 p1) d1 (cross3 d1 d2)
                             / dot3 (cross3 d1 d2) (cross3 d1 d2)) d2))) 2)))"
  by (simp add: computeClosestPointOfIntersection_def np_div_def Let_def norm3_sq
      norm3_zero_iff dot3_self_zero_iff)





section \<open>Facts about the widget: callbacks under the guard\<close>

lemma quiet_ignored: "quiet ignored"
  by (simp add: quiet_def ignored_def)

lemma quiet_onSliderModified: "quiet (\<lambda>s. onSliderModified lg (Suc n) s)"
  by (simp add: quiet_def)

lemma quiet_onMarkupModified: "quiet (\<lambda>s. onMarkupModified lg (Suc n) s)"
  by (simp add: quiet_def)

lemma notify_quiet: "quiet h \<Longrightarrow> creating w \<Longrightarrow> notify h w = Some w"
  by (simp add: quiet_def notify_def)

lemma setNth_quiet:
  "quiet obs \<Longrightarrow> creating w \<Longrightarrow>
     setNthControlPointPosition obs i v w = Some (w\<lparr>controlPoints := (controlPoints w)(i := v)\<rparr>)"
  by (simp add: setNthControlPointPosition_def notify_quiet)

lemma assignSlider_p1_quiet:
  "quiet slot \<Longrightarrow> creating w \<Longrightarrow>
     assignSlider slot p1Sliders (\<lambda>v s. s\<lparr>p1Sliders := v\<rparr>) i v w
       = Some (w\<lparr>p1Sliders := vupd (p1Sliders w) i (slider_clamp (- 100) 100 v)\<rparr>)"
proof -
  assume q: "quiet slot" and c: "creating w"
  have same: "vnth u i = x \<Longrightarrow> vupd u i x = u" for u x
    by (cases u) auto
  show ?thesis
  proof (cases "vnth (p1Sliders w) i = slider_clamp (- 100) 100 v")
    case True
    then show ?thesis by (simp add: assignSlider_def Let_def same)
  next
    case False
    then show ?thesis using q c by (simp add: assignSlider_def Let_def notify_quiet)
  qed
qed

lemma assignSlider_p2_quiet:
  "quiet slot \<Longrightarrow> creating w \<Longrightarrow>
     assignSlider slot p2Sliders (\<lambda>v s. s\<lparr>p2Sliders := v\<rparr>) i v w
       = Some (w\<lparr>p2Sliders := vupd (p2Sliders w) i (slider_clamp (- 100) 100 v)\<rparr>)"
proof -
  assume q: "quiet slot" and c: "creating w"
  have same: "vnth u i = x \<Longrightarrow> vupd u i x = u" for u x
    by (cases u) auto
  show ?thesis
  proof (cases "vnth (p2Sliders w) i = slider_clamp (- 100) 100 v")
    case True
    then show ?thesis by (simp add: assignSlider_def Let_def same)
  next
    case False
    then show ?thesis using q c by (simp add: assignSlider_def Let_def notify_quiet)
  qed
qed

lemma vupd_all:
  "vupd (vupd (vupd u 0 (slider_clamp (- 100) 100 (vnth p 0)))
           (Suc 0) (slider_clamp (- 100) 100 (vnth p (Suc 0))))
     2 (slider_clamp (- 100) 100 (vnth p 2)) = vclamp p"
  by (cases u; cases p) simp

lemma assignSliders_p1_quiet:
  "quiet slot \<Longrightarrow> creating w \<Longrightarrow>
     assignSliders slot p1Sliders (\<lambda>v s. s\<lparr>p1Sliders := v\<rparr>) p w = Some (w\<lparr>p1Sliders := vclamp p\<rparr>)"
  by (simp add: assignSliders_def assignSlider_p1_quiet vupd_all)

lemma assignSliders_p2_quiet:
  "quiet slot \<Longrightarrow> creating w \<Longrightarrow>
     assignSliders slot p2Sliders (\<lambda>v s. s\<lparr>p2Sliders := v\<rparr>) p w = Some (w\<lparr>p2Sliders := vclamp p\<rparr>)"
  by (simp add: assignSliders_def assignSlider_p2_quiet vupd_all)

lemma updateP3Position_quiet:
  "quiet obs \<Longrightarrow> creating w \<Longrightarrow>
     updateP3Position lg obs p1 p2 w =
       (case lg p1 (param_d1 w) p2 (param_d2 w) of
          Inl e \<Rightarrow> Some (Raised e, w)
        | Inr p3 \<Rightarrow> (case p3 of
            [x, y, z] \<Rightarrow> Some (Returned, w\<lparr>controlPoints := (controlPoints w)(2 := (x, y, z)),
                                             intersectionLabel := map py_round2 p3\<rparr>)
          | _ \<Rightarrow> Some (Raised ArityError, w)))"
  by (simp add: updateP3Position_def setNth_quiet split: sum.splits list.splits)

text \<open>
  With quiet callbacks each propagation has a closed form: the writes of its body and
  nothing else.
\<close>

lemma updateFromSliders_quiet:
  assumes "quiet obs"
  shows "updateFromSliders lg obs w =
     (let w4 = w\<lparr>creating := True,
                  controlPoints := (controlPoints w)(0 := p1Sliders w, 1 := p2Sliders w),
                  param_d1 := d1Sliders w, param_d2 := d2Sliders w\<rparr>
      in case lg (p1Sliders w) (d1Sliders w) (p2Sliders w) (d2Sliders w) of
          Inl e \<Rightarrow> Some (Raised e, w4)
        | Inr p3 \<Rightarrow> (case p3 of
            [x, y, z] \<Rightarrow> Some (Returned, w4\<lparr>controlPoints := (controlPoints w4)(2 := (x, y, z)),
                                             intersectionLabel := map py_round2 p3,
                                             creating := False\<rparr>)
          | _ \<Rightarrow> Some (Raised ArityError, w4)))"
  using assms
  by (simp add: updateFromSliders_def Let_def setNth_quiet updateP3Position_quiet
      split: sum.splits list.splits)

lemma updateFromMarkups_quiet:
  assumes "quiet slot" "quiet obs"
  shows "updateFromMarkups lg slot obs w =
     (let w2 = w\<lparr>creating := True,
                  p1Sliders := vclamp (controlPoints w 0),
                  p2Sliders := vclamp (controlPoints w 1)\<rparr>
      in case lg (controlPoints w 0) (param_d1 w) (controlPoints w 1) (param_d2 w) of
          Inl e \<Rightarrow> Some (Raised e, w2)
        | Inr p3 \<Rightarrow> (case p3 of
            [x, y, z] \<Rightarrow> Some (Returned, w2\<lparr>controlPoints := (controlPoints w2)(2 := (x, y, z)),
                                             intersectionLabel := map py_round2 p3,
                                             creating := False\<rparr>)
          | _ \<Rightarrow> Some (Raised ArityError, w2)))"
  using assms
  by (simp add: updateFromMarkups_def Let_def assignSliders_p1_quiet assignSliders_p2_quiet
      updateP3Position_quiet split: sum.splits list.splits)

lemma solver_triple:
  "\<exists>v. computeClosestPointOfIntersection p1 d1 p2 d2 = Inr (tolist v)"
proof -
  have "[0, 0, 0] = tolist (0, 0, 0)" by simp
  then show ?thesis unfolding solver_unfold by (metis (full_types))
qed

lemma vclamp_in_range: "in_slider_range v \<Longrightarrow> vclamp v = v"
  by (cases v) (simp add: slider_clamp_def)

text \<open>
  Handling an event in the state after \<^verbatim>\<open>setup()\<close>, with nothing changed, gives that
  state back.
\<close>

lemma after_setup_sliders_fixpoint:
  "updateFromSliders computeClosestPointOfIntersection
     (onMarkupModified computeClosestPointOfIntersection (Suc 0)) after_setup
   = Some (Returned, after_setup)"
  by (simp add: updateFromSliders_quiet [OF quiet_onMarkupModified]
      Let_def after_setup_def computeClosestPointOfIntersection_def np_div_def
      py_round2_def fun_eq_iff)

lemma after_setup_markups_fixpoint:
  "updateFromMarkups computeClosestPointOfIntersection
     (onSliderModified computeClosestPointOfIntersection (Suc 0))
     (onMarkupModified computeClosestPointOfIntersection (Suc 0)) after_setup
   = Some (Returned, after_setup)"
  by (simp add: updateFromMarkups_quiet [OF quiet_onSliderModified quiet_onMarkupModified]
      Let_def after_setup_def computeClosestPointOfIntersection_def np_div_def
      py_round2_def slider_clamp_def fun_eq_iff)

text \<open>
  The write-back of P3 when the flag is set, and when it is clear in a state whose
  position sliders already hold the clamped control points.
\<close>

lemma updateP3Position_idle_settled:
  assumes idle: "\<not> creating w"
    and s1: "p1Sliders w = vclamp (controlPoints w 0)"
    and s2: "p2Sliders w = vclamp (controlPoints w 1)"
  shows "\<exists>q lbl. updateP3Position computeClosestPointOfIntersection
             (onMarkupModified computeClosestPointOfIntersection (Suc (Suc n))) p1 p2 w
           = Some (Returned, w\<lparr>controlPoints := (controlPoints w)(2 := q),
                                intersectionLabel := lbl\<rparr>)"
proof -
  obtain v where v: "computeClosestPointOfIntersection p1 (param_d1 w) p2 (param_d2 w)
      = Inr (tolist v)"
    using solver_triple by blast
  obtain x y z where xyz: "v = (x, y, z)" using prod_cases3 by blast
  obtain v' where v': "computeClosestPointOfIntersection (controlPoints w 0) (param_d1 w)
      (controlPoints w 1) (param_d2 w) = Inr (tolist v')"
    using solver_triple by blast
  obtain x' y' z' where xyz': "v' = (x', y', z')" using prod_cases3 by blast
  have "updateP3Position computeClosestPointOfIntersection
             (onMarkupModified computeClosestPointOfIntersection (Suc (Suc n))) p1 p2 w
           = Some (Returned, w\<lparr>controlPoints := (controlPoints w)(2 := (x', y', z')),
                                intersectionLabel := map py_round2 [x, y, z]\<rparr>)"
    using idle s1 s2 v xyz v' xyz'
    by (cases w)
      (simp add: updateP3Position_def setNthControlPointPosition_def notify_def
        updateFromMarkups_quiet [OF quiet_onSliderModified quiet_onMarkupModified] Let_def)
  then show ?thesis by blast
qed

lemma updateP3Position_guarded:
  assumes "creating w"
  shows "\<exists>q lbl. updateP3Position computeClosestPointOfIntersection
             (onMarkupModified computeClosestPointOfIntersection (Suc (Suc n))) p1 p2 w
           = Some (Returned, w\<lparr>controlPoints := (controlPoints w)(2 := q),
                                intersectionLabel := lbl\<rparr>)"
proof -
  obtain v where v: "computeClosestPointOfIntersection p1 (param_d1 w) p2 (param_d2 w)
      = Inr (tolist v)"
    using solver_triple by blast
  obtain x y z where xyz: "v = (x, y, z)" using prod_cases3 by blast
  have "updateP3Position computeClosestPointOfIntersection
             (onMarkupModified computeClosestPointOfIntersection (Suc (Suc n))) p1 p2 w
           = Some (Returned, w\<lparr>controlPoints := (controlPoints w)(2 := (x, y, z)),
                                intersectionLabel := map py_round2 [x, y, z]\<rparr>)"
    using assms v xyz by (simp add: updateP3Position_quiet [OF quiet_onMarkupModified])
  then show ?thesis by blast
qed

section \<open>The solver: a direction of zero magnitude\<close>

text \<open>
  Claim C1. When \<open>d1\<close> or \<open>d2\<close> has zero magnitude, the solver returns the list
  \<open>[0, 0, 0]\<close>, whatever the points \<open>p1\<close> and \<open>p2\<close> are.
\<close>

theorem zero_direction_returns_origin:
  "norm3 d1 = 0 \<or> norm3 d2 = 0 \<Longrightarrow>
     computeClosestPointOfIntersection p1 d1 p2 d2 = Inr [0, 0, 0]"
  by (simp add: computeClosestPointOfIntersection_def)

theorem zero_direction_returns_origin_witness:
  "(norm3 (0, 0, 0) = 0 \<or> norm3 (1, 0, 0) = 0) \<and>
   computeClosestPointOfIntersection (1, 2, 3) (0, 0, 0) (4, 5, 6) (1, 0, 0) = Inr [0, 0, 0]"
  using zero_direction_returns_origin [of "(0, 0, 0)" "(1, 0, 0)" "(1, 2, 3)" "(4, 5, 6)"]
  by simp

section \<open>The solver: the two general branches\<close>





section \<open>The solver: swapping the lines\<close>




section \<open>The widget: the guard against re-entrant events\<close>

text \<open>
  Claim C7. A slider-changed or markup-points-changed event delivered while the guard
  flag is set is ignored: the handler returns and the state is as it was. So an event
  handled from the idle state is one propagation in which every nested notification (the
  markup notifications that the write-back of a slider-driven propagation fires, and the
  slider notifications of a markup-driven one) does nothing: no second cycle starts.
\<close>

theorem guard_ignores_events:
  "(creating w \<longrightarrow>
      onSliderModified lg (Suc n) w = Some (Returned, w) \<and>
      onMarkupModified lg (Suc n) w = Some (Returned, w))
   \<and> (\<not> creating w \<longrightarrow>
      onSliderModified lg (Suc (Suc n)) w = updateFromSliders lg ignored w \<and>
      onMarkupModified lg (Suc (Suc n)) w = updateFromMarkups lg ignored ignored w)"
proof -
  have s: "updateFromSliders lg (\<lambda>s. onMarkupModified lg (Suc n) s) w
           = updateFromSliders lg ignored w"
    by (simp only: updateFromSliders_quiet [OF quiet_onMarkupModified]
        updateFromSliders_quiet [OF quiet_ignored])
  have m: "updateFromMarkups lg (\<lambda>s. onSliderModified lg (Suc n) s)
             (\<lambda>s. onMarkupModified lg (Suc n) s) w
           = updateFromMarkups lg ignored ignored w"
    by (simp only: updateFromMarkups_quiet [OF quiet_onSliderModified quiet_onMarkupModified]
        updateFromMarkups_quiet [OF quiet_ignored quiet_ignored])
  show ?thesis by (simp add: s m)
qed

theorem guard_ignores_events_witness:
  "creating (after_setup\<lparr>creating := True\<rparr>) \<and>
   onSliderModified computeClosestPointOfIntersection (Suc 0) (after_setup\<lparr>creating := True\<rparr>)
     = Some (Returned, after_setup\<lparr>creating := True\<rparr>) \<and>
   onMarkupModified computeClosestPointOfIntersection (Suc 0) (after_setup\<lparr>creating := True\<rparr>)
     = Some (Returned, after_setup\<lparr>creating := True\<rparr>) \<and>
   \<not> creating after_setup \<and>
   onSliderModified computeClosestPointOfIntersection (Suc (Suc 0)) after_setup
     = updateFromSliders computeClosestPointOfIntersection ignored after_setup \<and>
   onMarkupModified computeClosestPointOfIntersection (Suc (Suc 0)) after_setup
     = updateFromMarkups computeClosestPointOfIntersection ignored ignored after_setup"
  using guard_ignores_events [of "after_setup\<lparr>creating := True\<rparr>" computeClosestPointOfIntersection 0]
    guard_ignores_events [of after_setup computeClosestPointOfIntersection 0]
  by (simp add: after_setup_def)

section \<open>The widget: the two views after an event\<close>

text \<open>
  Claim C6, as stated: after an event handled from the idle state, control points 0 and 1
  and the position sliders hold the same \<open>p1\<close> and \<open>p2\<close>. It fails for a markup
  event with a point outside the range of the sliders: with P1 dragged to \<open>(150, 0, 0)\<close>
  the sliders of P1 end at \<open>(100, 0, 0)\<close>.
\<close>

theorem sliders_clamp_counterexample:
  "onMarkupModified computeClosestPointOfIntersection (Suc (Suc 0))
     (after_setup\<lparr>controlPoints := (controlPoints after_setup)(0 := (150, 0, 0))\<rparr>)
   = Some (Returned,
       after_setup\<lparr>controlPoints := (controlPoints after_setup)(0 := (150, 0, 0)),
                   p1Sliders := (100, 0, 0)\<rparr>)"
  by (simp add: updateFromMarkups_quiet [OF quiet_onSliderModified quiet_onMarkupModified]
      Let_def after_setup_def computeClosestPointOfIntersection_def np_div_def slider_clamp_def
      py_round2_def fun_eq_iff)

text \<open>
  Claim C6, amended. From the idle state, a slider event ends with the flag cleared,
  control points 0 and 1 equal to the position sliders, the parameter node's directions
  equal to the direction sliders, and control point 2 equal to the solver's result for the
  current \<open>p1, d1, p2, d2\<close>. A markup event ends with the flag cleared, the position
  sliders equal to control points 0 and 1 clamped to \<open>[-100, 100]\<close> (so equal to them
  when they lie in that range), and control point 2 equal to the solver's result for the
  current \<open>p1, d1, p2, d2\<close>.
\<close>

theorem views_agree_after_event:
  "\<not> creating w \<longrightarrow>
     (\<exists>w'. onSliderModified computeClosestPointOfIntersection (Suc (Suc n)) w = Some (Returned, w')
        \<and> \<not> creating w'
        \<and> controlPoints w' 0 = p1Sliders w' \<and> controlPoints w' 1 = p2Sliders w'
        \<and> param_d1 w' = d1Sliders w' \<and> param_d2 w' = d2Sliders w'
        \<and> computeClosestPointOfIntersection (controlPoints w' 0) (param_d1 w')
              (controlPoints w' 1) (param_d2 w') = Inr (tolist (controlPoints w' 2)))
   \<and> (\<exists>w'. onMarkupModified computeClosestPointOfIntersection (Suc (Suc n)) w = Some (Returned, w')
        \<and> \<not> creating w'
        \<and> p1Sliders w' = vclamp (controlPoints w' 0) \<and> p2Sliders w' = vclamp (controlPoints w' 1)
        \<and> (in_slider_range (controlPoints w 0) \<longrightarrow> p1Sliders w' = controlPoints w' 0)
        \<and> (in_slider_range (controlPoints w 1) \<longrightarrow> p2Sliders w' = controlPoints w' 1)
        \<and> computeClosestPointOfIntersection (controlPoints w' 0) (param_d1 w')
              (controlPoints w' 1) (param_d2 w') = Inr (tolist (controlPoints w' 2)))"
proof (intro impI conjI)
  assume idle: "\<not> creating w"
  obtain v where v: "computeClosestPointOfIntersection (p1Sliders w) (d1Sliders w)
      (p2Sliders w) (d2Sliders w) = Inr (tolist v)"
    using solver_triple by blast
  obtain x y z where xyz: "v = (x, y, z)" using prod_cases3 by blast
  show "\<exists>w'. onSliderModified computeClosestPointOfIntersection (Suc (Suc n)) w = Some (Returned, w')
        \<and> \<not> creating w'
        \<and> controlPoints w' 0 = p1Sliders w' \<and> controlPoints w' 1 = p2Sliders w'
        \<and> param_d1 w' = d1Sliders w' \<and> param_d2 w' = d2Sliders w'
        \<and> computeClosestPointOfIntersection (controlPoints w' 0) (param_d1 w')
              (controlPoints w' 1) (param_d2 w') = Inr (tolist (controlPoints w' 2))"
    using idle v xyz
    by (simp add: updateFromSliders_quiet [OF quiet_onMarkupModified] Let_def)
next
  assume idle: "\<not> creating w"
  obtain v where v: "computeClosestPointOfIntersection (controlPoints w 0) (param_d1 w)
      (controlPoints w 1) (param_d2 w) = Inr (tolist v)"
    using solver_triple by blast
  obtain x y z where xyz: "v = (x, y, z)" using prod_cases3 by blast
  show "\<exists>w'. onMarkupModified computeClosestPointOfIntersection (Suc (Suc n)) w = Some (Returned, w')
        \<and> \<not> creating w'
        \<and> p1Sliders w' = vclamp (controlPoints w' 0) \<and> p2Sliders w' = vclamp (controlPoints w' 1)
        \<and> (in_slider_range (controlPoints w 0) \<longrightarrow> p1Sliders w' = controlPoints w' 0)
        \<and> (in_slider_range (controlPoints w 1) \<longrightarrow> p2Sliders w' = controlPoints w' 1)
        \<and> computeClosestPointOfIntersection (controlPoints w' 0) (param_d1 w')
              (controlPoints w' 1) (param_d2 w') = Inr (tolist (controlPoints w' 2))"
    using idle v xyz
    by (simp add: updateFromMarkups_quiet [OF quiet_onSliderModified quiet_onMarkupModified]
        Let_def vclamp_in_range)
qed

theorem views_agree_after_event_witness:
  "\<not> creating (after_setup\<lparr>controlPoints := (controlPoints after_setup)(0 := (5, 0, 0))\<rparr>)
   \<and> in_slider_range
        (controlPoints (after_setup\<lparr>controlPoints := (controlPoints after_setup)(0 := (5, 0, 0))\<rparr>) 0)
   \<and> in_slider_range
        (controlPoints (after_setup\<lparr>controlPoints := (controlPoints after_setup)(0 := (5, 0, 0))\<rparr>) 1)
   \<and> (\<exists>w'. onMarkupModified computeClosestPointOfIntersection (Suc (Suc 0))
               (after_setup\<lparr>controlPoints := (controlPoints after_setup)(0 := (5, 0, 0))\<rparr>)
             = Some (Returned, w')
          \<and> p1Sliders w' = controlPoints w' 0 \<and> p2Sliders w' = controlPoints w' 1
          \<and> computeClosestPointOfIntersection (controlPoints w' 0) (param_d1 w')
               (controlPoints w' 1) (param_d2 w') = Inr (tolist (controlPoints w' 2)))
   \<and> (\<exists>w'. onSliderModified computeClosestPointOfIntersection (Suc (Suc 0))
               (after_setup\<lparr>controlPoints := (controlPoints after_setup)(0 := (5, 0, 0))\<rparr>)
             = Some (Returned, w')
          \<and> controlPoints w' 0 = p1Sliders w' \<and> controlPoints w' 1 = p2Sliders w')"
proof -
  let ?w = "after_setup\<lparr>controlPoints := (controlPoints after_setup)(0 := (5, 0, 0))\<rparr>"
  have idle: "\<not> creating ?w" by (simp add: after_setup_def)
  have r0: "in_slider_range (controlPoints ?w 0)" by (simp add: after_setup_def)
  have r1: "in_slider_range (controlPoints ?w 1)" by (simp add: after_setup_def)
  from views_agree_after_event [of ?w 0] idle r0 r1 show ?thesis
    by (simp only: simp_thms) blast
qed

section \<open>The widget: the guard at the end of a propagation\<close>

text \<open>
  Claim C8, as stated: on every exit of a propagation, an exception included, the guard
  is cleared and later events are not ignored for ever. It fails when the propagation is
  left by an exception: a slider event whose solver call raises ends with the flag set,
  and the events that follow are ignored.
\<close>

theorem guard_stuck_counterexample:
  "onSliderModified raising_solver (Suc (Suc 0)) after_setup
     = Some (Raised ZeroDivisor, after_setup\<lparr>creating := True\<rparr>)
   \<and> onSliderModified computeClosestPointOfIntersection (Suc (Suc 0)) (after_setup\<lparr>creating := True\<rparr>)
     = Some (Returned, after_setup\<lparr>creating := True\<rparr>)
   \<and> onMarkupModified computeClosestPointOfIntersection (Suc (Suc 0)) (after_setup\<lparr>creating := True\<rparr>)
     = Some (Returned, after_setup\<lparr>creating := True\<rparr>)"
  by (simp add: updateFromSliders_quiet [OF quiet_onMarkupModified]
      Let_def after_setup_def raising_solver_def fun_eq_iff)

text \<open>
  Claim C8, amended. A propagation that returns has cleared the guard, and one that is
  left by an exception has left it set; with the module's own solver every propagation,
  from sliders or from markups, returns with the guard cleared.
\<close>

theorem guard_cleared_on_return:
  "(updateFromSliders lg (onMarkupModified lg (Suc n)) w = Some (st, w')
      \<longrightarrow> (creating w' \<longleftrightarrow> st \<noteq> Returned))
   \<and> (updateFromMarkups lg (onSliderModified lg (Suc n)) (onMarkupModified lg (Suc n)) w
        = Some (st, w')
      \<longrightarrow> (creating w' \<longleftrightarrow> st \<noteq> Returned))
   \<and> (\<exists>u. updateFromSliders computeClosestPointOfIntersection
             (onMarkupModified computeClosestPointOfIntersection (Suc n)) w
           = Some (Returned, u) \<and> \<not> creating u)
   \<and> (\<exists>u. updateFromMarkups computeClosestPointOfIntersection
             (onSliderModified computeClosestPointOfIntersection (Suc n))
             (onMarkupModified computeClosestPointOfIntersection (Suc n)) w
           = Some (Returned, u) \<and> \<not> creating u)"
proof (intro conjI impI)
  assume "updateFromSliders lg (onMarkupModified lg (Suc n)) w = Some (st, w')"
  then show "creating w' \<longleftrightarrow> st \<noteq> Returned"
    by (auto simp: updateFromSliders_quiet [OF quiet_onMarkupModified] Let_def
        split: sum.splits list.splits)
next
  assume "updateFromMarkups lg (onSliderModified lg (Suc n)) (onMarkupModified lg (Suc n)) w
        = Some (st, w')"
  then show "creating w' \<longleftrightarrow> st \<noteq> Returned"
    by (auto simp: updateFromMarkups_quiet [OF quiet_onSliderModified quiet_onMarkupModified]
        Let_def split: sum.splits list.splits)
next
  obtain v where v: "computeClosestPointOfIntersection (p1Sliders w) (d1Sliders w)
      (p2Sliders w) (d2Sliders w) = Inr (tolist v)"
    using solver_triple by blast
  obtain x y z where xyz: "v = (x, y, z)" using prod_cases3 by blast
  show "\<exists>u. updateFromSliders computeClosestPointOfIntersection
             (onMarkupModified computeClosestPointOfIntersection (Suc n)) w
           = Some (Returned, u) \<and> \<not> creating u"
    using v xyz by (simp add: updateFromSliders_quiet [OF quiet_onMarkupModified] Let_def)
next
  obtain v where v: "computeClosestPointOfIntersection (controlPoints w 0) (param_d1 w)
      (controlPoints w 1) (param_d2 w) = Inr (tolist v)"
    using solver_triple by blast
  obtain x y z where xyz: "v = (x, y, z)" using prod_cases3 by blast
  show "\<exists>u. updateFromMarkups computeClosestPointOfIntersection
             (onSliderModified computeClosestPointOfIntersection (Suc n))
             (onMarkupModified computeClosestPointOfIntersection (Suc n)) w
           = Some (Returned, u) \<and> \<not> creating u"
    using v xyz
    by (simp add: updateFromMarkups_quiet [OF quiet_onSliderModified quiet_onMarkupModified] Let_def)
qed

theorem guard_cleared_on_return_witness:
  "updateFromSliders computeClosestPointOfIntersection
     (onMarkupModified computeClosestPointOfIntersection (Suc 0)) after_setup
     = Some (Returned, after_setup)
   \<and> updateFromMarkups computeClosestPointOfIntersection
     (onSliderModified computeClosestPointOfIntersection (Suc 0))
     (onMarkupModified computeClosestPointOfIntersection (Suc 0)) after_setup
     = Some (Returned, after_setup)
   \<and> (creating after_setup \<longleftrightarrow> Returned \<noteq> Returned)"
  using guard_cleared_on_return [of computeClosestPointOfIntersection 0 after_setup Returned after_setup]
    after_setup_sliders_fixpoint after_setup_markups_fixpoint
  by simp

section \<open>The widget: what the write-back of P3 changes\<close>

text \<open>
  Claim C10. \<^verbatim>\<open>updateP3Position\<close> changes control point 2 and the label and nothing
  else: control points 0 and 1, the parameter node's \<open>d1\<close>, \<open>d2\<close> and
  \<open>autoUpdate\<close>, all the sliders and the flag are as before. This is stated for the
  states in which the method runs: with the flag set, as at its two call sites, and also
  with the flag clear when the position sliders hold the clamped control points 0 and 1,
  as they do after every event.
\<close>

theorem p3_writeback_frame:
  "creating w \<or> (p1Sliders w = vclamp (controlPoints w 0) \<and> p2Sliders w = vclamp (controlPoints w 1))
   \<longrightarrow> (\<exists>q lbl. updateP3Position computeClosestPointOfIntersection
             (onMarkupModified computeClosestPointOfIntersection (Suc (Suc n))) p1 p2 w
           = Some (Returned, w\<lparr>controlPoints := (controlPoints w)(2 := q),
                                intersectionLabel := lbl\<rparr>))"
  using updateP3Position_guarded updateP3Position_idle_settled by blast

theorem p3_writeback_frame_witness:
  "creating (after_setup\<lparr>creating := True\<rparr>)
   \<and> updateP3Position computeClosestPointOfIntersection
        (onMarkupModified computeClosestPointOfIntersection (Suc (Suc 0))) (0, 0, 2) (0, 0, 0)
        (after_setup\<lparr>creating := True\<rparr>)
      = Some (Returned,
          after_setup\<lparr>creating := True,
                      controlPoints := (controlPoints after_setup)(2 := (0, 0, 1)),
                      intersectionLabel := [0, 0, 1]\<rparr>)
   \<and> p1Sliders after_setup = vclamp (controlPoints after_setup 0)
   \<and> p2Sliders after_setup = vclamp (controlPoints after_setup 1)
   \<and> updateP3Position computeClosestPointOfIntersection
        (onMarkupModified computeClosestPointOfIntersection (Suc (Suc 0))) (0, 0, 2) (0, 0, 0)
        after_setup
      = Some (Returned, after_setup\<lparr>intersectionLabel := [0, 0, 1]\<rparr>)"
  using p3_writeback_frame [of "after_setup\<lparr>creating := True\<rparr>" 0 "(0, 0, 2)" "(0, 0, 0)"]
    p3_writeback_frame [of after_setup 0 "(0, 0, 2)" "(0, 0, 0)"]
  by (simp add: updateP3Position_def setNthControlPointPosition_def notify_def
      updateFromMarkups_quiet [OF quiet_onSliderModified quiet_onMarkupModified]
      Let_def after_setup_def computeClosestPointOfIntersection_def np_div_def slider_clamp_def
      py_round2_def fun_eq_iff)

end
